theory Spec2Isabelle
  imports Main "HOL-Library.Sublist" "HOL-Library.AList"
begin

section \<open>The indexing service of \<^verbatim>\<open>compute_service/prepare.py\<close>\<close>

text \<open>
  The module polls a catalog of Moodle files, turns every PDF entry into tagged text
  chunks (\<^verbatim>\<open>object_pipeline\<close>), writes the chunks of one document into a Qdrant
  collection (\<^verbatim>\<open>save_file_chunks_to_qdrant\<close>), fans this out over a catalog
  (\<^verbatim>\<open>corpora_to_qdrant\<close>) and repeats it whenever the catalog changed
  (\<^verbatim>\<open>no_corpora_changes\<close>, \<^verbatim>\<open>main\<close>).

  Everything the functions do beyond returning a value is explicit here. The local file
  system, the Qdrant collection and the sequence of calls made to the outside
  collaborators form the \<open>world\<close>; a function that may raise returns the exception as
  a value next to the world it leaves behind, because files written and points uploaded
  before the exception stay.
\<close>

subsection \<open>Data\<close>

text \<open>
  \<^verbatim>\<open>MoodleFileObject\<close> is read through \<^verbatim>\<open>course_id\<close>, \<^verbatim>\<open>module_id\<close> and
  \<^verbatim>\<open>filename\<close>. Whatever further fields the class carries are the record's
  extension \<open>'x\<close>, so that \<^verbatim>\<open>model_dump\<close> and \<^verbatim>\<open>meta_prefix\<close> can depend on them.
\<close>

record MoodleFileObject =
  course_id :: int
  module_id :: int
  filename :: string

record 'x Corpora =
  moodle_files :: "'x MoodleFileObject_scheme list"

text \<open>The dictionary under the key \<^verbatim>\<open>"document-ref"\<close> of a chunk.\<close>

record doc_ref =
  ref_course_id :: int
  ref_module_id :: int
  ref_filename :: string

text \<open>
  A chunk dictionary: \<^verbatim>\<open>"text"\<close>, \<^verbatim>\<open>"document-ref"\<close> and
  \<^verbatim>\<open>"chunk-ref": {"chunk_number": j}\<close>.
\<close>

record chunk =
  chunk_text :: string
  document_ref :: doc_ref
  chunk_number :: nat

text \<open>
  A point of the collection: the payload and the two named vectors. The vector types are
  left open; nothing below looks inside a vector.
\<close>

record ('d, 's) point =
  payload :: chunk
  dense :: 'd
  bm25 :: 's

datatype error = CatalogFetchError | ObjectStorageError | ExtractionError

text \<open>Calls to the outside collaborators, in the order they are made.\<close>

datatype call =
    PoolImap "doc_ref list"
  | MinioFget string
  | PdfToText string
  | QdrantCount doc_ref
  | QdrantDelete doc_ref
  | BiEncode "string list"
  | Bm25Embed "string list"
  | QdrantUpload "chunk list"

record ('d, 's) world =
  files :: "(string \<times> string) list"
  points :: "('d, 's) point list"
  calls :: "call list"

text \<open>
  The collaborators of \<^verbatim>\<open>object_pipeline\<close>. \<^verbatim>\<open>content_to_minio_object\<close>,
  \<^verbatim>\<open>PDF_TO_TEXT_VERSION\<close>, \<^verbatim>\<open>meta_prefix\<close>, \<^verbatim>\<open>clean_text\<close> and the splitter
  are defined outside this module and are parameters. \<open>minio_fget\<close> gives the bytes
  the bucket holds under an object name (\<open>None\<close>: the download raises), and
  \<open>pdf_to_text\<close> the text PyMuPDF extracts from the bytes of a file
  (\<open>None\<close>: opening or converting the document raises).
\<close>

record 'x deps =
  content_to_minio_object :: "int \<Rightarrow> int \<Rightarrow> string \<Rightarrow> string"
  PDF_TO_TEXT_VERSION :: string
  minio_fget :: "string \<Rightarrow> string option"
  pdf_to_text :: "string \<Rightarrow> string option"
  meta_prefix :: "'x MoodleFileObject_scheme \<Rightarrow> string"
  clean_text :: "string \<Rightarrow> string"
  split_text :: "string \<Rightarrow> string list"

text \<open>The two encoders: each takes the list of texts and returns a list of vectors.\<close>

record ('d, 's) encoders =
  bi_encoder_encode :: "string list \<Rightarrow> 'd list"
  bm25_embed :: "string list \<Rightarrow> 's list"

subsection \<open>The local file system\<close>

definition path_exists :: "(string \<times> string) list \<Rightarrow> string \<Rightarrow> bool" where
  "path_exists fs p = (map_of fs p \<noteq> None)"

definition write_file :: "string \<Rightarrow> string \<Rightarrow> (string \<times> string) list \<Rightarrow> (string \<times> string) list" where
  "write_file p content fs = AList.update p content fs"

definition log_call :: "call \<Rightarrow> ('d, 's) world \<Rightarrow> ('d, 's) world" where
  "log_call c w = w\<lparr>calls := calls w @ [c]\<rparr>"

subsection \<open>\<^verbatim>\<open>object_pipeline\<close>\<close>

text \<open>
  The local files are a list of paths with their contents. A path is the string that
  \<^verbatim>\<open>Path("s3") / name\<close> stands for when \<^verbatim>\<open>name\<close> is a relative object name
  without empty or dot components: the parts joined by a slash. Two paths are the same
  file when they are the same string. Directories are not modelled, so \<^verbatim>\<open>mkdir\<close>
  has no effect.

  Lines 86 to 88: the raw file is downloaded into \<^verbatim>\<open>s3/<object name>\<close> unless a file
  is already there.
\<close>

definition ensure_raw_file ::
  "'x deps \<Rightarrow> string \<Rightarrow> string \<Rightarrow> ('d, 's) world \<Rightarrow> (error + unit) \<times> ('d, 's) world" where
  "ensure_raw_file env s3_object_name file_path w =
     (if \<not> path_exists (files w) file_path then
        (let w1 = log_call (MinioFget s3_object_name) w in
         case minio_fget env s3_object_name of
           None \<Rightarrow> (Inl ObjectStorageError, w1)
         | Some raw \<Rightarrow> (Inr (), w1\<lparr>files := write_file file_path raw (files w1)\<rparr>))
      else (Inr (), w))"

text \<open>
  Reading a file with \<^verbatim>\<open>open(path)\<close> and \<^verbatim>\<open>f.read()\<close>: the file is opened in text
  mode with universal newlines, so a carriage return followed by a line feed, and a
  carriage return alone, are each read as one line feed. Writing through
  \<^verbatim>\<open>open(path, "w")\<close> stores the characters as they are, the line separator of the
  platform being the line feed.
\<close>

fun universal_newlines :: "string \<Rightarrow> string" where
  "universal_newlines [] = []"
| "universal_newlines [c] = [if c = CHR 0x0D then CHR 0x0A else c]"
| "universal_newlines (c # d # cs) =
     (if c = CHR 0x0D \<and> d = CHR 0x0A then CHR 0x0A # universal_newlines cs
      else if c = CHR 0x0D then CHR 0x0A # universal_newlines (d # cs)
      else c # universal_newlines (d # cs))"

text \<open>
  Lines 90 to 104: the text of the document. When no file exists at \<^verbatim>\<open>text_path\<close>,
  \<^verbatim>\<open>open(text_path, "w")\<close> creates it empty, then the document is opened and converted
  inside the \<^verbatim>\<open>with\<close> block, and the output is written into the open file. An
  exception of the conversion leaves the block with the file created and nothing written.
  When a file exists at \<^verbatim>\<open>text_path\<close>, the text is what reading that file gives.
\<close>

definition extract_text ::
  "'x deps \<Rightarrow> string \<Rightarrow> string \<Rightarrow> ('d, 's) world \<Rightarrow> (error + string) \<times> ('d, 's) world" where
  "extract_text env file_path text_path w =
     (case map_of (files w) text_path of
        None \<Rightarrow>
          (let w1 = w\<lparr>files := write_file text_path [] (files w)\<rparr>;
               w2 = log_call (PdfToText file_path) w1 in
           case Option.bind (map_of (files w2) file_path) (pdf_to_text env) of
             None \<Rightarrow> (Inl ExtractionError, w2)
           | Some output \<Rightarrow> (Inr output, w2\<lparr>files := write_file text_path output (files w2)\<rparr>))
      | Some stored \<Rightarrow> (Inr (universal_newlines stored), w))"

definition ref_of :: "'x MoodleFileObject_scheme \<Rightarrow> doc_ref" where
  "ref_of obj = \<lparr>ref_course_id = course_id obj, ref_module_id = module_id obj,
                 ref_filename = filename obj\<rparr>"

text \<open>Lines 105 to 125: preamble, cleaning, splitting and tagging.\<close>

definition tag_chunks :: "'x deps \<Rightarrow> 'x MoodleFileObject_scheme \<Rightarrow> string \<Rightarrow> chunk list" where
  "tag_chunks env obj output =
     (let page_text = clean_text env (meta_prefix env obj @ output);
          splitted = split_text env page_text
      in map (\<lambda>(j, t). \<lparr>chunk_text = t, document_ref = ref_of obj, chunk_number = j\<rparr>)
           (enumerate 0 splitted))"

definition s3_name :: "'x deps \<Rightarrow> 'x MoodleFileObject_scheme \<Rightarrow> string" where
  "s3_name env obj = content_to_minio_object env (course_id obj) (module_id obj) (filename obj)"

definition file_path_of :: "'x deps \<Rightarrow> 'x MoodleFileObject_scheme \<Rightarrow> string" where
  "file_path_of env obj = ''s3/'' @ s3_name env obj"

definition text_path_of :: "'x deps \<Rightarrow> 'x MoodleFileObject_scheme \<Rightarrow> string" where
  "text_path_of env obj = ''cache/text-'' @ PDF_TO_TEXT_VERSION env @ ''/'' @ s3_name env obj"

definition object_pipeline ::
  "'x deps \<Rightarrow> 'x MoodleFileObject_scheme \<Rightarrow> ('d, 's) world
     \<Rightarrow> (error + chunk list) \<times> ('d, 's) world" where
  "object_pipeline env obj w =
     (case ensure_raw_file env (s3_name env obj) (file_path_of env obj) w of
        (Inl e, w1) \<Rightarrow> (Inl e, w1)
      | (Inr _, w1) \<Rightarrow>
          (case extract_text env (file_path_of env obj) (text_path_of env obj) w1 of
             (Inl e, w2) \<Rightarrow> (Inl e, w2)
           | (Inr output, w2) \<Rightarrow> (Inr (tag_chunks env obj output), w2)))"

subsection \<open>\<^verbatim>\<open>save_file_chunks_to_qdrant\<close>\<close>

definition matches :: "doc_ref \<Rightarrow> ('d, 's) point \<Rightarrow> bool" where
  "matches ref p = (document_ref (payload p) = ref)"

definition make_point :: "chunk \<times> 'd \<times> 's \<Rightarrow> ('d, 's) point" where
  "make_point = (\<lambda>(c, dv, sv). \<lparr>payload = c, dense = dv, bm25 = sv\<rparr>)"

definition save_file_chunks_to_qdrant ::
  "('d, 's) encoders \<Rightarrow> chunk list \<Rightarrow> ('d, 's) world \<Rightarrow> ('d, 's) world" where
  "save_file_chunks_to_qdrant enc chunks w =
     (case chunks of
        [] \<Rightarrow> w
      | c0 # _ \<Rightarrow>
          (let ref = document_ref c0;
               w1 = log_call (QdrantCount ref) w;
               exact_match = length (filter (matches ref) (points w1))
           in if exact_match = length chunks then w1
              else
                (let w2 = log_call (QdrantDelete ref)
                            (w1\<lparr>points := filter (\<lambda>p. \<not> matches ref p) (points w1)\<rparr>);
                     texts = map chunk_text chunks;
                     dense_vectors = bi_encoder_encode enc texts;
                     w3 = log_call (BiEncode texts) w2;
                     sparse_vectors = bm25_embed enc texts;
                     w4 = log_call (Bm25Embed texts) w3;
                     vectors = zip dense_vectors sparse_vectors
                 in log_call (QdrantUpload chunks)
                      (w4\<lparr>points := points w4 @ map make_point (zip chunks vectors)\<rparr>))))"

subsection \<open>\<^verbatim>\<open>corpora_to_qdrant\<close>\<close>

definition endswith :: "string \<Rightarrow> string \<Rightarrow> bool" where
  "endswith s suf = suffix suf s"

definition pdf_items :: "'x Corpora \<Rightarrow> 'x MoodleFileObject_scheme list" where
  "pdf_items corpora = filter (\<lambda>item. endswith (filename item) ''.pdf'') (moodle_files corpora)"

text \<open>
  The loop over \<^verbatim>\<open>pool.imap_unordered(object_pipeline, items)\<close>, given the items in
  the order in which their results arrive. A result that is an exception is raised again
  by the iterator, which ends the loop and the function; a non-empty chunk list is saved.
\<close>

fun file_chunks_loop ::
  "'x deps \<Rightarrow> ('d, 's) encoders \<Rightarrow> 'x MoodleFileObject_scheme list \<Rightarrow> ('d, 's) world
     \<Rightarrow> error option \<times> ('d, 's) world" where
  "file_chunks_loop env enc [] w = (None, w)"
| "file_chunks_loop env enc (item # rest) w =
     (case object_pipeline env item w of
        (Inl e, w1) \<Rightarrow> (Some e, w1)
      | (Inr chunks, w1) \<Rightarrow>
          file_chunks_loop env enc rest
            (if chunks \<noteq> [] then save_file_chunks_to_qdrant enc chunks w1 else w1))"

text \<open>
  The pool returns the results in an order of its own: \<open>sched\<close> is that order, a
  rearrangement of the submitted items. Each document's pipeline run and the saving of
  its chunks are taken in that order, one document after the other.
\<close>

definition corpora_to_qdrant ::
  "('x MoodleFileObject_scheme list \<Rightarrow> 'x MoodleFileObject_scheme list) \<Rightarrow> 'x deps
     \<Rightarrow> ('d, 's) encoders \<Rightarrow> 'x Corpora \<Rightarrow> ('d, 's) world \<Rightarrow> error option \<times> ('d, 's) world" where
  "corpora_to_qdrant sched env enc corpora w =
     (let items = pdf_items corpora
      in file_chunks_loop env enc (sched items) (log_call (PoolImap (map ref_of items)) w))"

subsection \<open>\<^verbatim>\<open>no_corpora_changes\<close> and \<^verbatim>\<open>main\<close>\<close>

text \<open>\<^verbatim>\<open>model_dump\<close>: the dictionary of all fields of an entry.\<close>

definition model_dump :: "'x MoodleFileObject_scheme \<Rightarrow> int \<times> int \<times> string \<times> 'x" where
  "model_dump obj = (course_id obj, module_id obj, filename obj, MoodleFileObject.more obj)"

definition no_corpora_changes :: "'x Corpora option \<Rightarrow> 'x Corpora \<Rightarrow> bool" where
  "no_corpora_changes prev_corpora corpora =
     (case prev_corpora of
        None \<Rightarrow> False
      | Some prev \<Rightarrow> map model_dump (moodle_files prev) = map model_dump (moodle_files corpora))"

text \<open>
  One turn of the \<^verbatim>\<open>while True\<close> loop of \<^verbatim>\<open>main\<close>. The state is
  \<^verbatim>\<open>prev_corpora\<close> and the world; \<open>poll\<close> is what \<^verbatim>\<open>fetch_corpora()\<close> does in this
  turn: it returns a catalog or raises. The result \<open>Some e\<close> says that the exception
  \<open>e\<close> left the loop, and \<^verbatim>\<open>main\<close> with it.
\<close>

definition main_step ::
  "('x MoodleFileObject_scheme list \<Rightarrow> 'x MoodleFileObject_scheme list) \<Rightarrow> 'x deps
     \<Rightarrow> ('d, 's) encoders \<Rightarrow> 'x Corpora option \<times> ('d, 's) world \<Rightarrow> error + 'x Corpora
     \<Rightarrow> error option \<times> 'x Corpora option \<times> ('d, 's) world" where
  "main_step sched env enc st poll =
     (case poll of
        Inl e \<Rightarrow> (Some e, st)
      | Inr corpora \<Rightarrow>
          (if no_corpora_changes (fst st) corpora then (None, st)
           else
             (case corpora_to_qdrant sched env enc corpora (snd st) of
                (Some e, w1) \<Rightarrow> (Some e, fst st, w1)
              | (None, w1) \<Rightarrow> (None, Some corpora, w1))))"

text \<open>
  \<^verbatim>\<open>main\<close> on the first polls of a run. \<open>None\<close>: the loop is still running after
  them; \<open>Some e\<close>: it was left by the exception \<open>e\<close> and the remaining polls never
  happen.
\<close>

fun main_loop ::
  "('x MoodleFileObject_scheme list \<Rightarrow> 'x MoodleFileObject_scheme list) \<Rightarrow> 'x deps
     \<Rightarrow> ('d, 's) encoders \<Rightarrow> 'x Corpora option \<times> ('d, 's) world \<Rightarrow> (error + 'x Corpora) list
     \<Rightarrow> error option \<times> 'x Corpora option \<times> ('d, 's) world" where
  "main_loop sched env enc st [] = (None, st)"
| "main_loop sched env enc st (poll # polls) =
     (case main_step sched env enc st poll of
        (Some e, st1) \<Rightarrow> (Some e, st1)
      | (None, st1) \<Rightarrow> main_loop sched env enc st1 polls)"

definition main ::
  "('x MoodleFileObject_scheme list \<Rightarrow> 'x MoodleFileObject_scheme list) \<Rightarrow> 'x deps
     \<Rightarrow> ('d, 's) encoders \<Rightarrow> ('d, 's) world \<Rightarrow> (error + 'x Corpora) list
     \<Rightarrow> error option \<times> 'x Corpora option \<times> ('d, 's) world" where
  "main sched env enc w polls = main_loop sched env enc (None, w) polls"

subsection \<open>Reading the call sequence\<close>

text \<open>The calls that count, delete or upload points, or run an encoder.\<close>

definition is_index_call :: "call \<Rightarrow> bool" where
  "is_index_call c = (case c of QdrantCount _ \<Rightarrow> True | QdrantDelete _ \<Rightarrow> True
      | BiEncode _ \<Rightarrow> True | Bm25Embed _ \<Rightarrow> True | QdrantUpload _ \<Rightarrow> True | _ \<Rightarrow> False)"

text \<open>The calls that run the PDF-to-text conversion.\<close>

definition is_extraction_call :: "call \<Rightarrow> bool" where
  "is_extraction_call c = (case c of PdfToText _ \<Rightarrow> True | _ \<Rightarrow> False)"


subsection \<open>A small catalog\<close>

text \<open>
  Collaborators and entries on which the functions can be run. The bucket holds
  \<^verbatim>\<open>a.pdf\<close>, whose text is \<^verbatim>\<open>xy\<close>, and \<^verbatim>\<open>b.pdf\<close>, which the converter
  rejects; \<^verbatim>\<open>n.txt\<close> is a catalog entry that is no PDF. The preamble is \<^verbatim>\<open>#\<close>,
  the splitter cuts a text into its characters, the dense vector of a text is its length
  and the sparse vector its length plus ten.
\<close>

definition sample_env :: "unit deps" where
  "sample_env =
     \<lparr>content_to_minio_object = (\<lambda>c m f. ''m/'' @ f),
      PDF_TO_TEXT_VERSION = ''1'',
      minio_fget = (\<lambda>n. if n = ''m/a.pdf'' then Some ''xy''
                          else if n = ''m/b.pdf'' then Some ''bad'' else None),
      pdf_to_text = (\<lambda>raw. if raw = ''bad'' then None else Some raw),
      meta_prefix = (\<lambda>obj. ''#''),
      clean_text = (\<lambda>s. s),
      split_text = (\<lambda>s. map (\<lambda>c. [c]) s)\<rparr>"

definition sample_enc :: "(nat, nat) encoders" where
  "sample_enc = \<lparr>bi_encoder_encode = map length, bm25_embed = map (\<lambda>t. 10 + length t)\<rparr>"

definition sample_a :: MoodleFileObject where
  "sample_a = \<lparr>course_id = 1, module_id = 2, filename = ''a.pdf''\<rparr>"

definition sample_b :: MoodleFileObject where
  "sample_b = \<lparr>course_id = 1, module_id = 3, filename = ''b.pdf''\<rparr>"


definition empty_world :: "(nat, nat) world" where
  "empty_world = \<lparr>files = [], points = [], calls = []\<rparr>"

text \<open>The same collaborators with a splitter that returns no segment.\<close>

definition silent_env :: "unit deps" where
  "silent_env = sample_env\<lparr>split_text := (\<lambda>s. [])\<rparr>"


text \<open>The chunks of \<^verbatim>\<open>a.pdf\<close>, and worlds the examples start from.\<close>

definition sample_chunks :: "chunk list" where
  "sample_chunks = tag_chunks sample_env sample_a ''xy''"

definition stale_world :: "(nat, nat) world" where
  "stale_world =
     \<lparr>files = [],
      points =
        [\<lparr>payload = \<lparr>chunk_text = ''old'', document_ref = ref_of sample_a, chunk_number = 0\<rparr>,
          dense = 0, bm25 = 0\<rparr>,
         \<lparr>payload = \<lparr>chunk_text = ''other'', document_ref = ref_of sample_b, chunk_number = 0\<rparr>,
          dense = 0, bm25 = 0\<rparr>],
      calls = []\<rparr>"

definition indexed_world :: "(nat, nat) world" where
  "indexed_world = save_file_chunks_to_qdrant sample_enc sample_chunks empty_world"

definition poisoned_world :: "(nat, nat) world" where
  "poisoned_world =
     \<lparr>files = [(''s3/m/b.pdf'', ''bad''), (''cache/text-1/m/b.pdf'', [])], points = [],
      calls = [MinioFget ''m/b.pdf'', PdfToText ''s3/m/b.pdf'']\<rparr>"




section \<open>Auxiliary facts\<close>

subsection \<open>The world under each function\<close>

lemma points_log_call: "points (log_call c w) = points w"
  by (simp add: log_call_def)


lemma map_of_write_file: "map_of (write_file p content fs) = (map_of fs)(p \<mapsto> content)"
  by (simp add: write_file_def update_conv')

lemma path_exists_write_file:
  "path_exists (write_file p content fs) q \<longleftrightarrow> q = p \<or> path_exists fs q"
  by (auto simp: path_exists_def map_of_write_file)

subsection \<open>Points and their payloads\<close>

lemma payload_make_point: "payload (make_point (c, v)) = c"
  by (cases v) (simp add: make_point_def)

lemma map_payload_make_point:
  "length vs = length cs \<Longrightarrow> map payload (map make_point (zip cs vs)) = cs"
proof (induction cs arbitrary: vs)
  case Nil
  then show ?case by simp
next
  case (Cons c cs)
  then obtain v vs' where "vs = v # vs'" by (cases vs) auto
  with Cons show ?case by (simp add: payload_make_point)
qed

lemma vectors_make_point:
  "dense (make_point (c, dv, sv)) = dv" "bm25 (make_point (c, dv, sv)) = sv"
  by (simp_all add: make_point_def)

lemma map_vectors_make_point:
  assumes "length ds = length cs" and "length ss = length cs"
  shows "map dense (map make_point (zip cs (zip ds ss))) = ds"
    and "map bm25 (map make_point (zip cs (zip ds ss))) = ss"
proof -
  from assms have "length cs = length ds" "length ds = length ss" by simp_all
  then have "map dense (map make_point (zip cs (zip ds ss))) = ds
           \<and> map bm25 (map make_point (zip cs (zip ds ss))) = ss"
    by (induction cs ds ss rule: list_induct3) (simp_all add: vectors_make_point)
  then show "map dense (map make_point (zip cs (zip ds ss))) = ds"
    and "map bm25 (map make_point (zip cs (zip ds ss))) = ss"
    by simp_all
qed

lemma filter_matches_fresh:
  "\<forall>c \<in> set cs. document_ref c = ref \<Longrightarrow>
   filter (matches ref) (map make_point (zip cs vs)) = map make_point (zip cs vs)"
  by (rule filter_True) (auto simp: matches_def payload_make_point dest: set_zip_leftD)

lemma filter_not_matches_fresh:
  "\<forall>c \<in> set cs. document_ref c = ref \<Longrightarrow>
   filter (\<lambda>p. \<not> matches ref p) (map make_point (zip cs vs)) = []"
  by (auto simp: filter_empty_conv matches_def payload_make_point dest: set_zip_leftD)

lemma save_nonempty_mismatch:
  assumes "chunks = c0 # cs" and "length (filter (matches (document_ref c0)) (points w)) \<noteq> length chunks"
  shows "save_file_chunks_to_qdrant enc chunks w =
     \<lparr>files = files w,
      points = filter (\<lambda>p. \<not> matches (document_ref c0) p) (points w)
          @ map make_point (zip chunks (zip (bi_encoder_encode enc (map chunk_text chunks))
                                            (bm25_embed enc (map chunk_text chunks)))),
      calls = calls w @ [QdrantCount (document_ref c0), QdrantDelete (document_ref c0),
                BiEncode (map chunk_text chunks), Bm25Embed (map chunk_text chunks),
                QdrantUpload chunks]\<rparr>"
  using assms by (simp add: save_file_chunks_to_qdrant_def log_call_def Let_def)

subsection \<open>The steps of the pipeline\<close>

lemma ensure_raw_file_result:
  assumes "ensure_raw_file env n fp w = (r, w')"
  shows "filter is_extraction_call (calls w') = filter is_extraction_call (calls w)
       \<and> (r = Inr () \<longrightarrow> path_exists (files w') fp)
       \<and> (r \<noteq> Inr () \<longrightarrow> r = Inl ObjectStorageError \<and> files w' = files w)
       \<and> (path_exists (files w) fp \<longrightarrow> w' = w \<and> r = Inr ())
       \<and> (\<forall>q. q \<noteq> fp \<longrightarrow> map_of (files w') q = map_of (files w) q)
       \<and> (\<forall>q. path_exists (files w) q \<longrightarrow> path_exists (files w') q)"
  using assms
  by (auto simp: ensure_raw_file_def Let_def log_call_def is_extraction_call_def
        path_exists_write_file map_of_write_file split: if_splits option.splits)


lemma extract_text_hit:
  "map_of (files w) tp = Some t \<Longrightarrow> extract_text env fp tp w = (Inr (universal_newlines t), w)"
  by (simp add: extract_text_def)

lemma extract_text_miss:
  assumes "map_of (files w) tp = None"
  shows "extract_text env fp tp w =
     (case Option.bind (map_of (write_file tp [] (files w)) fp) (pdf_to_text env) of
        None \<Rightarrow> (Inl ExtractionError,
                  w\<lparr>files := write_file tp [] (files w), calls := calls w @ [PdfToText fp]\<rparr>)
      | Some output \<Rightarrow> (Inr output,
                  w\<lparr>files := write_file tp output (write_file tp [] (files w)),
                    calls := calls w @ [PdfToText fp]\<rparr>))"
  using assms by (simp add: extract_text_def Let_def log_call_def split: option.splits)

lemma extract_text_result:
  assumes "extract_text env fp tp w = (r, w')"
  shows "(\<exists>t. map_of (files w') tp = Some t
            \<and> (r = Inl ExtractionError
                \<or> r = Inr (case map_of (files w) tp of None \<Rightarrow> t
                           | Some _ \<Rightarrow> universal_newlines t)))
       \<and> (path_exists (files w) q \<longrightarrow> path_exists (files w') q)
       \<and> length (filter is_extraction_call (calls w'))
            \<le> Suc (length (filter is_extraction_call (calls w)))
       \<and> (map_of (files w) tp \<noteq> None \<longrightarrow> w' = w)"
proof (cases "map_of (files w) tp")
  case None
  from assms show ?thesis
    unfolding extract_text_miss [OF None]
    by (auto simp: None map_of_write_file path_exists_write_file is_extraction_call_def
          split: option.splits)
next
  case (Some t)
  from assms have "r = Inr (universal_newlines t)" "w' = w"
    unfolding extract_text_hit [OF Some] by simp_all
  with Some show ?thesis by simp
qed

lemma extract_text_failure:
  assumes "extract_text env fp tp w = (Inl e, w')"
  shows "e = ExtractionError \<and> map_of (files w') tp = Some []"
proof (cases "map_of (files w) tp")
  case None
  from assms show ?thesis
    unfolding extract_text_miss [OF None]
    by (auto simp: map_of_write_file split: option.splits)
next
  case (Some t)
  from assms show ?thesis unfolding extract_text_hit [OF Some] by simp
qed

lemma object_pipeline_unfold:
  assumes "ensure_raw_file env (s3_name env obj) (file_path_of env obj) w = (r1, w1)"
    and "extract_text env (file_path_of env obj) (text_path_of env obj) w1 = (r2, w2)"
  shows "object_pipeline env obj w =
     (case r1 of Inl e \<Rightarrow> (Inl e, w1)
      | Inr _ \<Rightarrow> (case r2 of Inl e \<Rightarrow> (Inl e, w2) | Inr output \<Rightarrow> (Inr (tag_chunks env obj output), w2)))"
  using assms by (simp add: object_pipeline_def split: sum.splits)

lemma paths_distinct: "file_path_of env obj \<noteq> text_path_of env obj"
  by (simp add: file_path_of_def text_path_of_def)

lemma object_pipeline_run:
  assumes run: "object_pipeline env obj w = (r, w')"
  shows "length (filter is_extraction_call (calls w'))
           \<le> Suc (length (filter is_extraction_call (calls w)))"
    and "r \<noteq> Inl ObjectStorageError \<Longrightarrow>
           path_exists (files w') (file_path_of env obj)
           \<and> (\<exists>t. map_of (files w') (text_path_of env obj) = Some t
                  \<and> (r = Inl ExtractionError
                      \<or> r = Inr (tag_chunks env obj
                            (case map_of (files w) (text_path_of env obj) of
                               None \<Rightarrow> t | Some _ \<Rightarrow> universal_newlines t))))"
    and "r = Inl ObjectStorageError \<Longrightarrow>
           filter is_extraction_call (calls w') = filter is_extraction_call (calls w)"
    and "map_of (files w) (text_path_of env obj) = Some t \<Longrightarrow>
           filter is_extraction_call (calls w') = filter is_extraction_call (calls w)
           \<and> (r = Inr (tag_chunks env obj (universal_newlines t)) \<or> r = Inl ObjectStorageError)"
    and "path_exists (files w) (file_path_of env obj) \<Longrightarrow>
         map_of (files w) (text_path_of env obj) = Some t \<Longrightarrow>
           w' = w \<and> r = Inr (tag_chunks env obj (universal_newlines t))"
    and "path_exists (files w) q \<Longrightarrow> path_exists (files w') q"
proof -
  let ?fp = "file_path_of env obj" and ?tp = "text_path_of env obj"
  obtain r1 w1 where a: "ensure_raw_file env (s3_name env obj) ?fp w = (r1, w1)"
    by (cases "ensure_raw_file env (s3_name env obj) ?fp w")
  obtain r2 w2 where b: "extract_text env ?fp ?tp w1 = (r2, w2)"
    by (cases "extract_text env ?fp ?tp w1")
  note ra = ensure_raw_file_result [OF a]
  note rb = extract_text_result [OF b, of ?fp]
  note unf = object_pipeline_unfold [OF a b]
  have r1_cases: "r1 = Inr () \<or> r1 = Inl ObjectStorageError" using ra by blast
  have same_tp: "map_of (files w1) ?tp = map_of (files w) ?tp"
    using ra paths_distinct [of env obj] by metis
  show "length (filter is_extraction_call (calls w'))
           \<le> Suc (length (filter is_extraction_call (calls w)))"
    using run ra rb r1_cases unfolding unf by (auto split: sum.splits)
  show "path_exists (files w') ?fp
           \<and> (\<exists>t. map_of (files w') ?tp = Some t
                  \<and> (r = Inl ExtractionError
                      \<or> r = Inr (tag_chunks env obj
                            (case map_of (files w) ?tp of
                               None \<Rightarrow> t | Some _ \<Rightarrow> universal_newlines t))))"
    if "r \<noteq> Inl ObjectStorageError"
  proof -
    from that run r1_cases have ok: "r1 = Inr ()" unfolding unf by (auto split: sum.splits)
    with run have r: "r = (case r2 of Inl e \<Rightarrow> Inl e | Inr out \<Rightarrow> Inr (tag_chunks env obj out))"
      and w': "w' = w2" unfolding unf by (auto split: sum.splits)
    from ra ok have "path_exists (files w1) ?fp" by simp
    with rb have ex: "path_exists (files w2) ?fp" by simp
    from rb obtain t where t: "map_of (files w2) ?tp = Some t"
      and r2: "r2 = Inl ExtractionError
                \<or> r2 = Inr (case map_of (files w1) ?tp of None \<Rightarrow> t
                            | Some _ \<Rightarrow> universal_newlines t)"
      by blast
    from r r2 have "r = Inl ExtractionError
        \<or> r = Inr (tag_chunks env obj
              (case map_of (files w) ?tp of None \<Rightarrow> t | Some _ \<Rightarrow> universal_newlines t))"
      unfolding same_tp by auto
    with ex t w' show ?thesis by blast
  qed
  show "filter is_extraction_call (calls w') = filter is_extraction_call (calls w)"
    if "r = Inl ObjectStorageError"
    using that run ra rb r1_cases unfolding unf by (auto split: sum.splits)
  show "filter is_extraction_call (calls w') = filter is_extraction_call (calls w)
           \<and> (r = Inr (tag_chunks env obj (universal_newlines t)) \<or> r = Inl ObjectStorageError)"
    if c: "map_of (files w) ?tp = Some t"
  proof -
    from c same_tp have "map_of (files w1) ?tp = Some t" by simp
    then have hit: "extract_text env ?fp ?tp w1 = (Inr (universal_newlines t), w1)"
      by (rule extract_text_hit)
    with b have "r2 = Inr (universal_newlines t)" "w2 = w1" by simp_all
    with run ra r1_cases show ?thesis unfolding unf by (auto split: sum.splits)
  qed
  show "w' = w \<and> r = Inr (tag_chunks env obj (universal_newlines t))"
    if e: "path_exists (files w) ?fp" and c: "map_of (files w) ?tp = Some t"
  proof -
    from ra e have s: "w1 = w" "r1 = Inr ()" by simp_all
    from c s have hit: "extract_text env ?fp ?tp w1 = (Inr (universal_newlines t), w1)"
      by (simp add: extract_text_hit)
    with b have "r2 = Inr (universal_newlines t)" "w2 = w1" by simp_all
    with run s show ?thesis unfolding unf by simp
  qed
  show "path_exists (files w') q" if q: "path_exists (files w) q"
  proof -
    from ra q have "path_exists (files w1) q" by simp
    with extract_text_result [OF b, of q] have "path_exists (files w2) q" by simp
    with run ra q r1_cases show ?thesis unfolding unf by (auto split: sum.splits)
  qed
qed

lemma tag_chunks_props:
  "map chunk_text (tag_chunks env obj output)
       = split_text env (clean_text env (meta_prefix env obj @ output))"
  "map chunk_number (tag_chunks env obj output) = [0..<length (tag_chunks env obj output)]"
  "map document_ref (tag_chunks env obj output)
       = replicate (length (tag_chunks env obj output)) (ref_of obj)"
proof -
  let ?s = "split_text env (clean_text env (meta_prefix env obj @ output))"
  have t: "map chunk_text (tag_chunks env obj output) = map snd (enumerate 0 ?s)"
    by (simp add: tag_chunks_def Let_def split_def comp_def)
  show "map chunk_text (tag_chunks env obj output) = ?s"
    unfolding t by simp
  have n: "map chunk_number (tag_chunks env obj output) = map fst (enumerate 0 ?s)"
    by (simp add: tag_chunks_def Let_def split_def comp_def)
  show "map chunk_number (tag_chunks env obj output) = [0..<length (tag_chunks env obj output)]"
    unfolding n by (simp add: tag_chunks_def Let_def)
  show "map document_ref (tag_chunks env obj output)
       = replicate (length (tag_chunks env obj output)) (ref_of obj)"
    by (simp add: tag_chunks_def Let_def split_def comp_def map_replicate_const)
qed

subsection \<open>The pipeline never touches the collection\<close>

lemma points_ensure_raw_file: "points (snd (ensure_raw_file env n p w)) = points w"
  by (simp add: ensure_raw_file_def Let_def points_log_call split: option.splits)

lemma points_extract_text: "points (snd (extract_text env fp tp w)) = points w"
  by (simp add: extract_text_def Let_def points_log_call split: option.splits)

lemma points_object_pipeline: "points (snd (object_pipeline env obj w)) = points w"
proof -
  obtain r1 w1 where a: "ensure_raw_file env (s3_name env obj) (file_path_of env obj) w = (r1, w1)"
    by (cases "ensure_raw_file env (s3_name env obj) (file_path_of env obj) w")
  obtain r2 w2 where b: "extract_text env (file_path_of env obj) (text_path_of env obj) w1 = (r2, w2)"
    by (cases "extract_text env (file_path_of env obj) (text_path_of env obj) w1")
  have p1: "points w1 = points w" using points_ensure_raw_file [of env "s3_name env obj" "file_path_of env obj" w] a by simp
  have p2: "points w2 = points w1" using points_extract_text [of env "file_path_of env obj" "text_path_of env obj" w1] b by simp
  show ?thesis
    by (cases r1; cases r2) (simp_all add: object_pipeline_def a b p1 p2)
qed

lemma index_calls_ensure_raw_file:
  "filter is_index_call (calls (snd (ensure_raw_file env n p w))) = filter is_index_call (calls w)"
  by (simp add: ensure_raw_file_def Let_def log_call_def is_index_call_def split: option.splits)

lemma index_calls_extract_text:
  "filter is_index_call (calls (snd (extract_text env fp tp w))) = filter is_index_call (calls w)"
  by (simp add: extract_text_def Let_def log_call_def is_index_call_def split: option.splits)

lemma index_calls_object_pipeline:
  "filter is_index_call (calls (snd (object_pipeline env obj w))) = filter is_index_call (calls w)"
proof -
  obtain r1 w1 where a: "ensure_raw_file env (s3_name env obj) (file_path_of env obj) w = (r1, w1)"
    by (cases "ensure_raw_file env (s3_name env obj) (file_path_of env obj) w")
  obtain r2 w2 where b: "extract_text env (file_path_of env obj) (text_path_of env obj) w1 = (r2, w2)"
    by (cases "extract_text env (file_path_of env obj) (text_path_of env obj) w1")
  have p1: "filter is_index_call (calls w1) = filter is_index_call (calls w)"
    using index_calls_ensure_raw_file [of env "s3_name env obj" "file_path_of env obj" w] a by simp
  have p2: "filter is_index_call (calls w2) = filter is_index_call (calls w1)"
    using index_calls_extract_text [of env "file_path_of env obj" "text_path_of env obj" w1] b by simp
  show ?thesis
    by (cases r1; cases r2) (simp_all add: object_pipeline_def a b p1 p2)
qed

subsection \<open>Calls are only ever appended\<close>







subsection \<open>The loop over results and the catalog comparison\<close>

lemma file_chunks_loop_append:
  "file_chunks_loop env enc (xs @ ys) w =
     (case file_chunks_loop env enc xs w of
        (Some e, w1) \<Rightarrow> (Some e, w1)
      | (None, w1) \<Rightarrow> file_chunks_loop env enc ys w1)"
  by (induction xs arbitrary: w) (auto split: prod.splits sum.splits option.splits)






subsection \<open>What a cycle does for the entries it is given\<close>












section \<open>The claims\<close>

subsection \<open>C1\<close>

text \<open>
  C1. A non-empty batch whose chunks all carry the document-ref \<open>ref\<close>, saved into a
  collection whose number of points matching \<open>ref\<close> differs from the batch length,
  leaves under \<open>ref\<close> exactly the batch: one point per chunk, in order, whose payloads
  are the chunks, whose dense vectors are what the dense encoder returned for the chunk
  texts and whose sparse vectors are what the sparse encoder returned for them. Points of other documents are unchanged, and
  the matching points are deleted before anything is encoded or uploaded. The encoders
  are taken to return one vector per text.
\<close>

theorem save_replaces_stale_records:
  assumes nonempty: "chunks \<noteq> []"
    and same_ref: "\<forall>c \<in> set chunks. document_ref c = ref"
    and mismatch: "length (filter (matches ref) (points w)) \<noteq> length chunks"
    and dense_len: "length (bi_encoder_encode enc (map chunk_text chunks)) = length chunks"
    and sparse_len: "length (bm25_embed enc (map chunk_text chunks)) = length chunks"
  shows "filter (matches ref) (points (save_file_chunks_to_qdrant enc chunks w))
           = map make_point (zip chunks (zip (bi_encoder_encode enc (map chunk_text chunks))
                                             (bm25_embed enc (map chunk_text chunks))))
       \<and> map payload (filter (matches ref) (points (save_file_chunks_to_qdrant enc chunks w)))
           = chunks
       \<and> map dense (filter (matches ref) (points (save_file_chunks_to_qdrant enc chunks w)))
           = bi_encoder_encode enc (map chunk_text chunks)
       \<and> map bm25 (filter (matches ref) (points (save_file_chunks_to_qdrant enc chunks w)))
           = bm25_embed enc (map chunk_text chunks)
       \<and> filter (\<lambda>p. \<not> matches ref p) (points (save_file_chunks_to_qdrant enc chunks w))
           = filter (\<lambda>p. \<not> matches ref p) (points w)
       \<and> calls (save_file_chunks_to_qdrant enc chunks w)
           = calls w @ [QdrantCount ref, QdrantDelete ref, BiEncode (map chunk_text chunks),
                        Bm25Embed (map chunk_text chunks), QdrantUpload chunks]"
proof -
  from nonempty obtain c0 cs where split: "chunks = c0 # cs" by (cases chunks) auto
  with same_ref have ref: "document_ref c0 = ref" by simp
  let ?vs = "zip (bi_encoder_encode enc (map chunk_text chunks)) (bm25_embed enc (map chunk_text chunks))"
  have len: "length ?vs = length chunks" using dense_len sparse_len by simp
  have eq: "save_file_chunks_to_qdrant enc chunks w =
     \<lparr>files = files w,
      points = filter (\<lambda>p. \<not> matches ref p) (points w) @ map make_point (zip chunks ?vs),
      calls = calls w @ [QdrantCount ref, QdrantDelete ref,
                BiEncode (map chunk_text chunks), Bm25Embed (map chunk_text chunks),
                QdrantUpload chunks]\<rparr>"
    using save_nonempty_mismatch [OF split, of w enc] mismatch ref by simp
  have a: "filter (matches ref) (points (save_file_chunks_to_qdrant enc chunks w))
             = map make_point (zip chunks ?vs)"
    by (simp add: eq filter_matches_fresh [OF same_ref])
  have b: "map payload (filter (matches ref) (points (save_file_chunks_to_qdrant enc chunks w))) = chunks"
    unfolding a by (rule map_payload_make_point [OF len])
  have v: "map dense (filter (matches ref) (points (save_file_chunks_to_qdrant enc chunks w)))
             = bi_encoder_encode enc (map chunk_text chunks)"
    unfolding a by (rule map_vectors_make_point(1) [OF dense_len sparse_len])
  have s: "map bm25 (filter (matches ref) (points (save_file_chunks_to_qdrant enc chunks w)))
             = bm25_embed enc (map chunk_text chunks)"
    unfolding a by (rule map_vectors_make_point(2) [OF dense_len sparse_len])
  have c: "filter (\<lambda>p. \<not> matches ref p) (points (save_file_chunks_to_qdrant enc chunks w))
             = filter (\<lambda>p. \<not> matches ref p) (points w)"
    by (simp add: eq filter_not_matches_fresh [OF same_ref])
  have d: "calls (save_file_chunks_to_qdrant enc chunks w)
           = calls w @ [QdrantCount ref, QdrantDelete ref, BiEncode (map chunk_text chunks),
                        Bm25Embed (map chunk_text chunks), QdrantUpload chunks]"
    by (simp add: eq)
  from a b v s c d show ?thesis by blast
qed

text \<open>One stale point of \<^verbatim>\<open>a.pdf\<close> and one point of another document; the batch has three chunks.\<close>

theorem save_replaces_stale_records_witness:
  "length (filter (matches (ref_of sample_a)) (points stale_world)) = 1
   \<and> length sample_chunks = 3
   \<and> map payload (filter (matches (ref_of sample_a))
         (points (save_file_chunks_to_qdrant sample_enc sample_chunks stale_world)))
       = sample_chunks
   \<and> map dense (filter (matches (ref_of sample_a))
         (points (save_file_chunks_to_qdrant sample_enc sample_chunks stale_world)))
       = [1, 1, 1]
   \<and> map bm25 (filter (matches (ref_of sample_a))
         (points (save_file_chunks_to_qdrant sample_enc sample_chunks stale_world)))
       = [11, 11, 11]
   \<and> filter (\<lambda>p. \<not> matches (ref_of sample_a) p)
         (points (save_file_chunks_to_qdrant sample_enc sample_chunks stale_world))
       = filter (\<lambda>p. \<not> matches (ref_of sample_a) p) (points stale_world)"
proof -
  have one: "length (filter (matches (ref_of sample_a)) (points stale_world)) = 1"
    by code_simp
  have three: "length sample_chunks = 3" by code_simp
  have nonempty: "sample_chunks \<noteq> []" using three by auto
  have same_ref: "\<forall>c \<in> set sample_chunks. document_ref c = ref_of sample_a"
    by code_simp
  have mismatch: "length (filter (matches (ref_of sample_a)) (points stale_world))
                    \<noteq> length sample_chunks"
    using one three by simp
  have dense_len: "length (bi_encoder_encode sample_enc (map chunk_text sample_chunks))
                     = length sample_chunks"
    by (simp add: sample_enc_def)
  have sparse_len: "length (bm25_embed sample_enc (map chunk_text sample_chunks))
                      = length sample_chunks"
    by (simp add: sample_enc_def)
  have dense_saved: "map dense (filter (matches (ref_of sample_a))
         (points (save_file_chunks_to_qdrant sample_enc sample_chunks stale_world)))
       = [1, 1, 1]"
    by code_simp
  have sparse_saved: "map bm25 (filter (matches (ref_of sample_a))
         (points (save_file_chunks_to_qdrant sample_enc sample_chunks stale_world)))
       = [11, 11, 11]"
    by code_simp
  from save_replaces_stale_records [OF nonempty same_ref mismatch dense_len sparse_len]
    one three dense_saved sparse_saved
  show ?thesis by blast
qed

subsection \<open>C2\<close>

text \<open>
  C2. A non-empty batch, saved into a collection that holds exactly as many points
  matching the document-ref of its first chunk as the batch has chunks, changes neither
  the points nor the files, and the count is the only call made: nothing is deleted,
  encoded or uploaded.
\<close>

theorem save_skips_when_count_equal:
  assumes nonempty: "chunks \<noteq> []"
    and equal: "length (filter (matches (document_ref (hd chunks))) (points w)) = length chunks"
  shows "points (save_file_chunks_to_qdrant enc chunks w) = points w
       \<and> files (save_file_chunks_to_qdrant enc chunks w) = files w
       \<and> calls (save_file_chunks_to_qdrant enc chunks w)
           = calls w @ [QdrantCount (document_ref (hd chunks))]"
proof -
  from nonempty obtain c0 cs where split: "chunks = c0 # cs" by (cases chunks) auto
  with equal have "length (filter (matches (document_ref c0)) (points w)) = Suc (length cs)" by simp
  then have "save_file_chunks_to_qdrant enc (c0 # cs) w = log_call (QdrantCount (document_ref c0)) w"
    by (simp add: save_file_chunks_to_qdrant_def Let_def points_log_call)
  then show ?thesis by (simp add: split log_call_def)
qed

text \<open>The three chunks of \<^verbatim>\<open>a.pdf\<close> saved a second time.\<close>

theorem save_skips_when_count_equal_witness:
  "length (points indexed_world) = 3
   \<and> points (save_file_chunks_to_qdrant sample_enc sample_chunks indexed_world)
       = points indexed_world
   \<and> calls (save_file_chunks_to_qdrant sample_enc sample_chunks indexed_world)
       = calls indexed_world @ [QdrantCount (document_ref (hd sample_chunks))]"
proof -
  have three: "length (points indexed_world) = 3" by code_simp
  have nonempty: "sample_chunks \<noteq> []" by code_simp
  have equal: "length (filter (matches (document_ref (hd sample_chunks))) (points indexed_world))
                 = length sample_chunks"
    by code_simp
  from save_skips_when_count_equal [OF nonempty equal, of sample_enc] three
  show ?thesis by blast
qed

subsection \<open>C3\<close>

text \<open>
  C3, as the code has it. No exception is caught. When the pipeline of a document fails,
  \<^verbatim>\<open>corpora_to_qdrant\<close> ends with that exception at the first failing result: the
  documents whose results arrived before it are processed, the failing document adds no
  point, and no result after it is consumed or saved. The exception leaves \<^verbatim>\<open>main\<close>,
  which ends, with \<^verbatim>\<open>prev_corpora\<close> unchanged; a failing catalog fetch ends
  \<^verbatim>\<open>main\<close> in the same way.
\<close>

theorem failure_ends_the_cycle_and_main:
  assumes order: "sched (pdf_items c) = before @ bad # after"
    and before: "file_chunks_loop env enc before
                   (log_call (PoolImap (map ref_of (pdf_items c))) w) = (None, w1)"
    and fails: "object_pipeline env bad w1 = (Inl e, w2)"
    and changed: "\<not> no_corpora_changes prev c"
  shows "corpora_to_qdrant sched env enc c w = (Some e, w2)
       \<and> points w2 = points w1
       \<and> main_step sched env enc (prev, w) (Inr c) = (Some e, prev, w2)
       \<and> main_loop sched env enc (prev, w) (Inr c # polls) = (Some e, prev, w2)
       \<and> main_loop sched env enc (prev, w) (Inl e' # polls) = (Some e', prev, w)"
proof -
  have a: "corpora_to_qdrant sched env enc c w = (Some e, w2)"
    by (simp add: corpora_to_qdrant_def Let_def order file_chunks_loop_append before fails)
  have b: "points w2 = points w1"
    using points_object_pipeline [of env bad w1] fails by simp
  have c: "main_step sched env enc (prev, w) (Inr c) = (Some e, prev, w2)"
    using changed by (simp add: main_step_def a)
  have d: "main_loop sched env enc (prev, w) (Inr c # polls) = (Some e, prev, w2)"
    by (simp add: c)
  have e: "main_loop sched env enc (prev, w) (Inl e' # polls) = (Some e', prev, w)"
    by (simp add: main_step_def)
  from a b c d e show ?thesis by blast
qed

text \<open>\<^verbatim>\<open>a.pdf\<close> arrives first and is saved; \<^verbatim>\<open>b.pdf\<close> fails and ends the loop.\<close>

theorem failure_ends_the_cycle_and_main_witness:
  "main_loop (\<lambda>xs. xs) sample_env sample_enc (None, empty_world)
      [Inr \<lparr>moodle_files = [sample_a, sample_b]\<rparr>, Inr \<lparr>moodle_files = [sample_a]\<rparr>]
     = (Some ExtractionError, None,
        snd (object_pipeline sample_env sample_b
          (snd (file_chunks_loop sample_env sample_enc [sample_a]
             (log_call (PoolImap [ref_of sample_a, ref_of sample_b]) empty_world)))))
   \<and> length (points (snd (object_pipeline sample_env sample_b
          (snd (file_chunks_loop sample_env sample_enc [sample_a]
             (log_call (PoolImap [ref_of sample_a, ref_of sample_b]) empty_world)))))) = 3"
proof -
  let ?c = "\<lparr>moodle_files = [sample_a, sample_b]\<rparr> :: unit Corpora"
  let ?w0 = "log_call (PoolImap (map ref_of (pdf_items ?c))) empty_world"
  let ?w1 = "snd (file_chunks_loop sample_env sample_enc [sample_a] ?w0)"
  let ?w2 = "snd (object_pipeline sample_env sample_b ?w1)"
  have items: "pdf_items ?c = [sample_a, sample_b]" by code_simp
  have order: "(\<lambda>xs. xs) (pdf_items ?c) = [sample_a] @ sample_b # []"
    by (simp add: items)
  have "fst (file_chunks_loop sample_env sample_enc [sample_a] ?w0) = None"
    by code_simp
  then have before: "file_chunks_loop sample_env sample_enc [sample_a] ?w0 = (None, ?w1)"
    by (metis prod.collapse)
  have "fst (object_pipeline sample_env sample_b ?w1) = Inl ExtractionError"
    by code_simp
  then have fails: "object_pipeline sample_env sample_b ?w1 = (Inl ExtractionError, ?w2)"
    by (metis prod.collapse)
  have changed: "\<not> no_corpora_changes None ?c" by (simp add: no_corpora_changes_def)
  have three: "length (points ?w1) = 3" by code_simp
  note t = failure_ends_the_cycle_and_main
      [of "\<lambda>xs. xs" ?c "[sample_a]" sample_b "[]" sample_env sample_enc empty_world ?w1
          ExtractionError ?w2 None "[Inr \<lparr>moodle_files = [sample_a]\<rparr>]",
       OF order before fails changed]
  from t three show ?thesis by (simp add: items)
qed

text \<open>
  The claim as written fails. With \<^verbatim>\<open>b.pdf\<close> arriving first, \<^verbatim>\<open>main\<close> ends with
  the extraction error and \<^verbatim>\<open>a.pdf\<close>, which alone gives three points, is never
  indexed; a failing catalog fetch ends \<^verbatim>\<open>main\<close> before the next poll.
\<close>

theorem failure_is_not_isolated_counterexample:
  "fst (main (\<lambda>xs. xs) sample_env sample_enc empty_world
          [Inr \<lparr>moodle_files = [sample_b, sample_a]\<rparr>, Inr \<lparr>moodle_files = [sample_a]\<rparr>])
     = Some ExtractionError
   \<and> points (snd (snd (main (\<lambda>xs. xs) sample_env sample_enc empty_world
          [Inr \<lparr>moodle_files = [sample_b, sample_a]\<rparr>, Inr \<lparr>moodle_files = [sample_a]\<rparr>])))
     = []
   \<and> length (points (snd (snd (main (\<lambda>xs. xs) sample_env sample_enc empty_world
          [Inr \<lparr>moodle_files = [sample_a]\<rparr>])))) = 3
   \<and> fst (main (\<lambda>xs. xs) sample_env sample_enc empty_world
          [Inl CatalogFetchError, Inr \<lparr>moodle_files = [sample_a]\<rparr>])
     = Some CatalogFetchError"
  by code_simp

subsection \<open>C4\<close>

text \<open>
  C4. The claim asks that a failed extraction leaves no file under the cache key. In the
  code the failure does reach the caller, but the file was created by
  \<^verbatim>\<open>open(text_path, "w")\<close> before the conversion ran: it stays, empty, and the next
  run of the pipeline on the same entry reads it as the text of the document and
  returns the chunks of the preamble alone, without an error.
\<close>

theorem failed_extraction_leaves_empty_cache_file:
  assumes run: "object_pipeline env obj w = (Inl ExtractionError, w')"
  shows "map_of (files w') (text_path_of env obj) = Some []
       \<and> object_pipeline env obj w' = (Inr (tag_chunks env obj []), w')"
proof -
  let ?fp = "file_path_of env obj" and ?tp = "text_path_of env obj"
  obtain r1 w1 where a: "ensure_raw_file env (s3_name env obj) ?fp w = (r1, w1)"
    by (cases "ensure_raw_file env (s3_name env obj) ?fp w")
  obtain r2 w2 where b: "extract_text env ?fp ?tp w1 = (r2, w2)"
    by (cases "extract_text env ?fp ?tp w1")
  from ensure_raw_file_result [OF a] have "r1 = Inr () \<or> r1 = Inl ObjectStorageError" by blast
  with run have "r2 = Inl ExtractionError" "w2 = w'"
    unfolding object_pipeline_unfold [OF a b] by (auto split: sum.splits)
  with b have "extract_text env ?fp ?tp w1 = (Inl ExtractionError, w')" by simp
  from extract_text_failure [OF this]
  have empty: "map_of (files w') ?tp = Some []" by simp
  from object_pipeline_run(2) [OF run]
  have raw: "path_exists (files w') ?fp" by simp
  from object_pipeline_run(5) [OF _ raw empty, of "fst (object_pipeline env obj w')" "snd (object_pipeline env obj w')"]
  have "object_pipeline env obj w' = (Inr (tag_chunks env obj (universal_newlines [])), w')"
    by (metis prod.collapse)
  then have "object_pipeline env obj w' = (Inr (tag_chunks env obj []), w')"
    by simp
  with empty show ?thesis by simp
qed

text \<open>The entry \<^verbatim>\<open>b.pdf\<close>, from an empty file system.\<close>

theorem failed_extraction_leaves_empty_cache_file_witness:
  "object_pipeline sample_env sample_b empty_world = (Inl ExtractionError, poisoned_world)
   \<and> map_of (files poisoned_world) (text_path_of sample_env sample_b) = Some []
   \<and> object_pipeline sample_env sample_b poisoned_world
       = (Inr (tag_chunks sample_env sample_b []), poisoned_world)
   \<and> tag_chunks sample_env sample_b []
       = [\<lparr>chunk_text = ''#'', document_ref = ref_of sample_b, chunk_number = 0\<rparr>]"
proof -
  have run: "object_pipeline sample_env sample_b empty_world
               = (Inl ExtractionError, poisoned_world)"
    by code_simp
  have tag: "tag_chunks sample_env sample_b []
       = [\<lparr>chunk_text = ''#'', document_ref = ref_of sample_b, chunk_number = 0\<rparr>]"
    by code_simp
  from failed_extraction_leaves_empty_cache_file [OF run] run tag
  show ?thesis by blast
qed

subsection \<open>C5\<close>



subsection \<open>C6\<close>




subsection \<open>C7\<close>

text \<open>
  C7. When the pipeline returns chunks for an entry, the chunk texts are the segments
  the splitter makes of the cleaned text, which is the preamble of the entry followed by
  the text of the document: the text stored under the cache key, just converted, or that
  text as it is read when the file was there before the run. The chunk numbers are 0, 1, 2, ... in segment
  order; and every chunk carries the course id, module id and filename of the entry as
  its document-ref. The chunks are a function of the entry and the text.
\<close>

theorem chunks_are_tagged_in_segment_order:
  assumes run: "object_pipeline env obj w = (Inr chunks, w')"
  shows "\<exists>stored output.
             map_of (files w') (text_path_of env obj) = Some stored
           \<and> output = (case map_of (files w) (text_path_of env obj) of
                         None \<Rightarrow> stored | Some _ \<Rightarrow> universal_newlines stored)
           \<and> chunks = tag_chunks env obj output
           \<and> map chunk_text chunks = split_text env (clean_text env (meta_prefix env obj @ output))
           \<and> map chunk_number chunks = [0..<length chunks]
           \<and> map document_ref chunks
                = replicate (length chunks)
                    \<lparr>ref_course_id = course_id obj, ref_module_id = module_id obj,
                     ref_filename = filename obj\<rparr>"
proof -
  have "Inr chunks \<noteq> (Inl ObjectStorageError :: error + chunk list)" by simp
  from object_pipeline_run(2) [OF run this] obtain stored
    where stored: "map_of (files w') (text_path_of env obj) = Some stored"
      and chunks: "chunks = tag_chunks env obj
                     (case map_of (files w) (text_path_of env obj) of
                        None \<Rightarrow> stored | Some _ \<Rightarrow> universal_newlines stored)"
    by auto
  let ?out = "case map_of (files w) (text_path_of env obj) of
                None \<Rightarrow> stored | Some _ \<Rightarrow> universal_newlines stored"
  from tag_chunks_props [of env obj ?out] chunks
  have "map chunk_text chunks = split_text env (clean_text env (meta_prefix env obj @ ?out))"
    and "map chunk_number chunks = [0..<length chunks]"
    and "map document_ref chunks
           = replicate (length chunks)
               \<lparr>ref_course_id = course_id obj, ref_module_id = module_id obj,
                ref_filename = filename obj\<rparr>"
    by (simp_all add: ref_of_def)
  with stored chunks show ?thesis by blast
qed

text \<open>The chunks of \<^verbatim>\<open>a.pdf\<close>.\<close>

theorem chunks_are_tagged_in_segment_order_witness:
  "fst (object_pipeline sample_env sample_a empty_world) = Inr sample_chunks
   \<and> map chunk_text sample_chunks = [''#'', ''x'', ''y'']
   \<and> map chunk_number sample_chunks = [0, 1, 2]
   \<and> map document_ref sample_chunks
       = replicate 3 \<lparr>ref_course_id = 1, ref_module_id = 2, ref_filename = ''a.pdf''\<rparr>"
proof -
  let ?w1 = "snd (object_pipeline sample_env sample_a empty_world) :: (nat, nat) world"
  have r1: "fst (object_pipeline sample_env sample_a (empty_world :: (nat, nat) world))
              = Inr sample_chunks"
    by code_simp
  then have run: "object_pipeline sample_env sample_a empty_world = (Inr sample_chunks, ?w1)"
    by (metis prod.collapse)
  have three: "length sample_chunks = 3" by code_simp
  have texts: "map chunk_text sample_chunks = [''#'', ''x'', ''y'']" by code_simp
  have upt: "[0..<3] = [0, 1, 2::nat]" by code_simp
  from chunks_are_tagged_in_segment_order [OF run] three
  have "map chunk_number sample_chunks = [0..<3]"
    and "map document_ref sample_chunks
       = replicate 3 \<lparr>ref_course_id = course_id sample_a, ref_module_id = module_id sample_a,
                       ref_filename = filename sample_a\<rparr>"
    by auto
  with r1 texts upt show ?thesis by (simp add: sample_a_def)
qed

subsection \<open>C8\<close>



subsection \<open>C9\<close>



subsection \<open>C10\<close>

text \<open>
  C10. When the pipeline of a document returns no chunk, the loop goes on to the next
  result without saving: the points are what they were before the document was taken
  up, and no call to the collection or to an encoder has been added. Saving an empty
  list changes nothing either.
\<close>

theorem empty_chunks_leave_index_untouched:
  assumes "object_pipeline env item w = (Inr [], w1)"
  shows "file_chunks_loop env enc (item # rest) w = file_chunks_loop env enc rest w1
       \<and> save_file_chunks_to_qdrant enc [] w1 = w1
       \<and> points w1 = points w
       \<and> filter is_index_call (calls w1) = filter is_index_call (calls w)"
  using assms points_object_pipeline [of env item w] index_calls_object_pipeline [of env item w]
  by (simp add: save_file_chunks_to_qdrant_def)

text \<open>\<^verbatim>\<open>a.pdf\<close> under a splitter that returns no segment, with a stale point in the collection.\<close>

theorem empty_chunks_leave_index_untouched_witness:
  "object_pipeline silent_env sample_a stale_world
     = (Inr [], snd (object_pipeline silent_env sample_a stale_world))
   \<and> points (snd (object_pipeline silent_env sample_a stale_world)) = points stale_world
   \<and> file_chunks_loop silent_env sample_enc [sample_a] stale_world
       = (None, snd (object_pipeline silent_env sample_a stale_world))
   \<and> length (filter (matches (ref_of sample_a)) (points stale_world)) = 1"
proof -
  let ?w1 = "snd (object_pipeline silent_env sample_a stale_world)"
  have "fst (object_pipeline silent_env sample_a stale_world) = Inr []" by code_simp
  then have run: "object_pipeline silent_env sample_a stale_world = (Inr [], ?w1)"
    by (metis prod.collapse)
  have one: "length (filter (matches (ref_of sample_a)) (points stale_world)) = 1"
    by code_simp
  from empty_chunks_leave_index_untouched [OF run, of sample_enc "[]"] run one
  show ?thesis by simp
qed

end
